theory Spec2Isabelle
  imports Main
begin

section \<open>Data model\<close>

text \<open>
  The rows the booking service reads and writes. Identifiers and the capacity are Prisma
  \<open>Int\<close> columns, modelled as \<open>int\<close>; timestamps are instants of a clock, modelled as
  \<open>nat\<close>. Field names carry a prefix per table, since \<open>id\<close> is a constant of HOL and
  several tables share column names.
\<close>

text \<open>Modelled from the spec: the Prisma schema that declares the tables is not under src/.
  Booking and Room have the columns the tests of the service read back; Enrollment,
  Ticket and TicketType have the columns the service reads and the references the spec's
  data model gives them (an Enrollment links a user, a Ticket belongs to an Enrollment
  and references a TicketType, its status is RESERVED or PAID).
\<close>

record booking =
  b_id :: int
  b_userId :: int
  b_roomId :: int
  b_createdAt :: nat
  b_updatedAt :: nat

record room =
  r_id :: int
  r_name :: string
  r_capacity :: int
  r_hotelId :: int
  r_createdAt :: nat
  r_updatedAt :: nat

record enrollment =
  e_id :: int
  e_userId :: int

datatype ticketStatus = RESERVED | PAID

record ticketType =
  tt_id :: int
  tt_isRemote :: bool
  tt_includesHotel :: bool

record ticket =
  t_id :: int
  t_ticketTypeId :: int
  t_enrollmentId :: int
  t_status :: ticketStatus

text \<open>
  The database: one list of rows per table, in table order, and the sequence that
  numbers new Booking rows.
\<close>

record store =
  bookings :: "booking list"
  rooms :: "room list"
  enrollments :: "enrollment list"
  tickets :: "ticket list"
  ticketTypes :: "ticketType list"
  bookingSeq :: int

text \<open>
  \<open>notFoundError()\<close> and \<open>cannotBookingError()\<close> are the two errors the service throws;
  \<open>RecordNotFound\<close> is what \<open>prisma.booking.update\<close> throws when no row has the given id.
\<close>

datatype error = NotFoundError | CannotBookingError | RecordNotFound

section \<open>Asynchronous store actions\<close>

text \<open>
  An \<open>async\<close> function of the source runs against the shared database and either
  resolves to a value or rejects with an error. It is modelled as a function from the
  store to the outcome and the store it leaves behind, so that a failing call still says
  what it left in the database.
\<close>

type_synonym 'a action = "store \<Rightarrow> (error + 'a) \<times> store"

definition resolve :: "'a \<Rightarrow> 'a action" where
  "resolve a = (\<lambda>s. (Inr a, s))"

definition throw :: "error \<Rightarrow> 'a action" where
  "throw e = (\<lambda>s. (Inl e, s))"

definition await :: "'a action \<Rightarrow> ('a \<Rightarrow> 'b action) \<Rightarrow> 'b action" where
  "await m f = (\<lambda>s. case m s of
                       (Inl e, s') \<Rightarrow> (Inl e, s')
                     | (Inr a, s') \<Rightarrow> f a s')"

section \<open>Repositories\<close>

subsection \<open>booking-repository\<close>

text \<open>\<open>findFirst\<close> with \<open>include: { Room: true }\<close>: the first Booking row of the user, with
  the Room row its \<open>roomId\<close> refers to.\<close>

definition bookingRepository_getBooking :: "int \<Rightarrow> (booking \<times> room option) option action" where
  "bookingRepository_getBooking userId = (\<lambda>s.
     (Inr (map_option (\<lambda>b. (b, find (\<lambda>r. r_id r = b_roomId b) (rooms s)))
             (find (\<lambda>b. b_userId b = userId) (bookings s))), s))"

text \<open>Modelled from the spec: the Booking model of the Prisma schema is not under src/.
  A Booking has id, userId, roomId, createdAt and updatedAt; \<open>create\<close> is given userId and
  roomId only, so the id is taken from the table's sequence and both timestamps are the
  instant of the call.\<close>

definition bookingRepository_postBooking :: "nat \<Rightarrow> int \<Rightarrow> int \<Rightarrow> booking action" where
  "bookingRepository_postBooking now userId roomId = (\<lambda>s.
     (let b = \<lparr>b_id = bookingSeq s, b_userId = userId, b_roomId = roomId,
                b_createdAt = now, b_updatedAt = now\<rparr>
      in (Inr b, s\<lparr>bookings := bookings s @ [b], bookingSeq := bookingSeq s + 1\<rparr>)))"

definition findRoom :: "int \<Rightarrow> room option action" where
  "findRoom roomId = (\<lambda>s. (Inr (find (\<lambda>r. r_id r = roomId) (rooms s)), s))"

definition findBooking :: "int \<Rightarrow> booking option action" where
  "findBooking bookingId = (\<lambda>s. (Inr (find (\<lambda>b. b_id b = bookingId) (bookings s)), s))"

definition countBookingRoom :: "int \<Rightarrow> nat action" where
  "countBookingRoom roomId = (\<lambda>s. (Inr (length (filter (\<lambda>b. b_roomId b = roomId) (bookings s))), s))"

text \<open>\<open>update\<close> addresses one row by its id: the first row with that id is replaced.\<close>

fun update_row :: "int \<Rightarrow> (booking \<Rightarrow> booking) \<Rightarrow> booking list \<Rightarrow> booking list" where
  "update_row i f [] = []"
| "update_row i f (b # bs) = (if b_id b = i then f b # bs else b # update_row i f bs)"

text \<open>Modelled from the spec: the Booking model of the Prisma schema is not under src/.
  \<open>update\<close> is given the new roomId only; the spec has updatedAt refreshed by the write
  and id, userId and createdAt kept.\<close>

definition updateBooking :: "nat \<Rightarrow> int \<Rightarrow> int \<Rightarrow> booking action" where
  "updateBooking now bookingId roomId = (\<lambda>s.
     (case find (\<lambda>b. b_id b = bookingId) (bookings s) of
        None \<Rightarrow> (Inl RecordNotFound, s)
      | Some b \<Rightarrow>
          (Inr (b\<lparr>b_roomId := roomId, b_updatedAt := now\<rparr>),
           s\<lparr>bookings := update_row bookingId
                            (\<lambda>b. b\<lparr>b_roomId := roomId, b_updatedAt := now\<rparr>) (bookings s)\<rparr>)))"

subsection \<open>enrollment-repository and ticket-repository\<close>

text \<open>Modelled from the spec: enrollment-repository is not under src/. An Enrollment
  links a user to the event; the lookup returns the user's Enrollment row, or nothing.\<close>

definition findWithAddressByUserId :: "int \<Rightarrow> enrollment option action" where
  "findWithAddressByUserId userId = (\<lambda>s. (Inr (find (\<lambda>e. e_userId e = userId) (enrollments s)), s))"

text \<open>Modelled from the spec: ticket-repository is not under src/. A Ticket belongs to an
  Enrollment and references a TicketType; the lookup returns the Enrollment's Ticket row
  together with the TicketType row it references, or nothing.\<close>

definition findTicketByEnrollmentId :: "int \<Rightarrow> (ticket \<times> ticketType) option action" where
  "findTicketByEnrollmentId enrollmentId = (\<lambda>s.
     (Inr (case find (\<lambda>t. t_enrollmentId t = enrollmentId) (tickets s) of
             None \<Rightarrow> None
           | Some t \<Rightarrow> map_option (Pair t) (find (\<lambda>tt. tt_id tt = t_ticketTypeId t) (ticketTypes s))), s))"

section \<open>booking-service\<close>

definition getBooking :: "int \<Rightarrow> (booking \<times> room option) action" where
  "getBooking userId =
     await (bookingRepository_getBooking userId) (\<lambda>booking.
       case booking of
         None \<Rightarrow> throw NotFoundError
       | Some bk \<Rightarrow> resolve bk)"

definition validateEnrollment :: "int \<Rightarrow> enrollment action" where
  "validateEnrollment userId =
     await (findWithAddressByUserId userId) (\<lambda>enrollment.
       case enrollment of
         None \<Rightarrow> throw CannotBookingError
       | Some en \<Rightarrow> resolve en)"

definition validTicket :: "int \<Rightarrow> (ticket \<times> ticketType) action" where
  "validTicket userId =
     await (validateEnrollment userId) (\<lambda>enrollment.
     await (findTicketByEnrollmentId (e_id enrollment)) (\<lambda>ticket.
       case ticket of
         None \<Rightarrow> throw CannotBookingError
       | Some (t, tt) \<Rightarrow>
           if t_status t = RESERVED \<or> tt_isRemote tt \<or> \<not> tt_includesHotel tt
           then throw CannotBookingError
           else resolve (t, tt)))"

definition verifyRoom :: "int \<Rightarrow> nat action" where
  "verifyRoom roomId =
     await (findRoom roomId) (\<lambda>room.
       case room of
         None \<Rightarrow> throw NotFoundError
       | Some rm \<Rightarrow>
           await (countBookingRoom roomId) (\<lambda>bookingRoom.
             if int bookingRoom \<ge> r_capacity rm
             then throw CannotBookingError
             else resolve bookingRoom))"

definition postBooking :: "nat \<Rightarrow> int \<Rightarrow> int \<Rightarrow> booking action" where
  "postBooking now userId roomId =
     await (verifyRoom roomId) (\<lambda>_.
     await (validTicket userId) (\<lambda>_.
     await (bookingRepository_getBooking userId) (\<lambda>userBooking.
       case userBooking of
         Some _ \<Rightarrow> throw CannotBookingError
       | None \<Rightarrow> bookingRepository_postBooking now userId roomId)))"

definition putBooking :: "nat \<Rightarrow> int \<Rightarrow> int \<Rightarrow> int \<Rightarrow> booking action" where
  "putBooking now userId bookingId roomId =
     await (findBooking bookingId) (\<lambda>booking.
       case booking of
         None \<Rightarrow> throw NotFoundError
       | Some bk \<Rightarrow>
           if userId \<noteq> b_userId bk \<or> roomId = b_roomId bk
           then throw CannotBookingError
           else await (verifyRoom roomId) (\<lambda>_. updateBooking now bookingId roomId))"

section \<open>Notions of the specification\<close>

text \<open>Occupancy of a room: the number of Booking rows that reference it.\<close>

definition occupancy :: "store \<Rightarrow> int \<Rightarrow> nat" where
  "occupancy s roomId = count_list (map b_roomId (bookings s)) roomId"

text \<open>
  Ticket eligibility, as the specification words it: the user has an Enrollment, the
  Enrollment has a Ticket, the Ticket's status is not RESERVED, its TicketType is not
  remote, and its TicketType includes the hotel.
\<close>

definition eligible :: "store \<Rightarrow> int \<Rightarrow> bool" where
  "eligible s userId =
     (case fst (findWithAddressByUserId userId s) of
        Inr (Some en) \<Rightarrow>
          (case fst (findTicketByEnrollmentId (e_id en) s) of
             Inr (Some (t, tt)) \<Rightarrow>
               t_status t \<noteq> RESERVED \<and> tt_isRemote tt = False \<and> tt_includesHotel tt = True
           | _ \<Rightarrow> False)
      | _ \<Rightarrow> False)"

text \<open>At most one Booking per user.\<close>

definition oneBookingPerUser :: "store \<Rightarrow> bool" where
  "oneBookingPerUser s = distinct (map b_userId (bookings s))"

text \<open>
  A sequence of calls to the service, each with the instant at which it runs where it
  writes; the calls run one after the other against the store, whatever each returns.
\<close>

datatype call =
  GetBooking int
| PostBooking nat int int
| PutBooking nat int int int

fun run_call :: "call \<Rightarrow> store \<Rightarrow> store" where
  "run_call (GetBooking userId) s = snd (getBooking userId s)"
| "run_call (PostBooking now userId roomId) s = snd (postBooking now userId roomId s)"
| "run_call (PutBooking now userId bookingId roomId) s = snd (putBooking now userId bookingId roomId s)"

fun run_calls :: "call list \<Rightarrow> store \<Rightarrow> store" where
  "run_calls [] s = s"
| "run_calls (c # cs) s = run_calls cs (run_call c s)"

text \<open>
  A small database used to run the service on concrete inputs: user 7 holds booking 1 in
  room 20 (hotel 1, capacity 1); room 21 (hotel 2, capacity 1) is empty; user 8 has an
  enrollment with a paid, on-site ticket that includes the hotel, and no booking.
\<close>

definition room_X :: room where
  "room_X = \<lparr>r_id = 20, r_name = ''X'', r_capacity = 1, r_hotelId = 1,
              r_createdAt = 0, r_updatedAt = 0\<rparr>"

definition room_Y :: room where
  "room_Y = \<lparr>r_id = 21, r_name = ''Y'', r_capacity = 1, r_hotelId = 2,
              r_createdAt = 0, r_updatedAt = 0\<rparr>"

definition booking_1 :: booking where
  "booking_1 = \<lparr>b_id = 1, b_userId = 7, b_roomId = 20, b_createdAt = 3, b_updatedAt = 3\<rparr>"

definition enrollment_8 :: enrollment where
  "enrollment_8 = \<lparr>e_id = 4, e_userId = 8\<rparr>"

definition ticket_8 :: ticket where
  "ticket_8 = \<lparr>t_id = 5, t_ticketTypeId = 6, t_enrollmentId = 4, t_status = PAID\<rparr>"

definition type_hotel :: ticketType where
  "type_hotel = \<lparr>tt_id = 6, tt_isRemote = False, tt_includesHotel = True\<rparr>"

definition example_store :: store where
  "example_store =
     \<lparr>bookings = [booking_1],
      rooms = [room_X, room_Y],
      enrollments = [enrollment_8],
      tickets = [ticket_8],
      ticketTypes = [type_hotel],
      bookingSeq = 2\<rparr>"

section \<open>The service functions in closed form\<close>

text \<open>
  The checks of the service only read the store, so each service function is a case
  distinction on what the lookups return, followed by at most one write.
\<close>

lemmas action_defs = resolve_def throw_def await_def

lemmas example_defs = example_store_def room_X_def room_Y_def booking_1_def enrollment_8_def
  ticket_8_def type_hotel_def

lemma filter_count_list:
  "length (filter (\<lambda>b. f b = k) bs) = count_list (map f bs) k"
  by (induction bs) auto

lemma countBookingRoom_occupancy:
  "countBookingRoom roomId s = (Inr (occupancy s roomId), s)"
  by (simp add: countBookingRoom_def occupancy_def filter_count_list)

lemma verifyRoom_eq:
  "verifyRoom roomId s =
     (case find (\<lambda>r. r_id r = roomId) (rooms s) of
        None \<Rightarrow> (Inl NotFoundError, s)
      | Some rm \<Rightarrow>
          if r_capacity rm \<le> int (occupancy s roomId)
          then (Inl CannotBookingError, s)
          else (Inr (occupancy s roomId), s))"
  by (simp add: verifyRoom_def findRoom_def countBookingRoom_occupancy action_defs
        split: option.splits)

lemma verifyRoom_occupancy:
  "fst (findRoom roomId s) = Inr (Some rm) \<Longrightarrow>
   verifyRoom roomId s =
     (if r_capacity rm \<le> int (occupancy s roomId) then (Inl CannotBookingError, s)
      else (Inr (occupancy s roomId), s))"
  by (simp add: verifyRoom_eq findRoom_def)

lemma validTicket_eq:
  "validTicket userId s =
     (case find (\<lambda>e. e_userId e = userId) (enrollments s) of
        None \<Rightarrow> (Inl CannotBookingError, s)
      | Some en \<Rightarrow>
          (case fst (findTicketByEnrollmentId (e_id en) s) of
             Inr (Some (t, tt)) \<Rightarrow>
               if t_status t = RESERVED \<or> tt_isRemote tt \<or> \<not> tt_includesHotel tt
               then (Inl CannotBookingError, s)
               else (Inr (t, tt), s)
           | _ \<Rightarrow> (Inl CannotBookingError, s)))"
  by (simp add: validTicket_def validateEnrollment_def findWithAddressByUserId_def
        findTicketByEnrollmentId_def action_defs split: option.splits)

lemma validTicket_eligible:
  "eligible s userId \<Longrightarrow> \<exists>tk. validTicket userId s = (Inr tk, s)"
  by (auto simp add: validTicket_eq eligible_def findWithAddressByUserId_def
        split: option.splits sum.splits)

lemma validTicket_ineligible:
  "\<not> eligible s userId \<Longrightarrow> validTicket userId s = (Inl CannotBookingError, s)"
  by (auto simp add: validTicket_eq eligible_def findWithAddressByUserId_def
        split: option.splits sum.splits)

lemma eligible_iff:
  "eligible s userId \<longleftrightarrow>
     (\<exists>en t tt. fst (findWithAddressByUserId userId s) = Inr (Some en)
        \<and> fst (findTicketByEnrollmentId (e_id en) s) = Inr (Some (t, tt))
        \<and> t_status t \<noteq> RESERVED \<and> \<not> tt_isRemote tt \<and> tt_includesHotel tt)"
  by (auto simp add: eligible_def findWithAddressByUserId_def findTicketByEnrollmentId_def
        split: option.splits)

lemma snd_verifyRoom: "snd (verifyRoom roomId s) = s"
  by (simp add: verifyRoom_eq split: option.splits)

lemma snd_validTicket: "snd (validTicket userId s) = s"
  by (cases "eligible s userId") (auto dest: validTicket_eligible validTicket_ineligible)

lemma getBooking_eq:
  "getBooking userId s =
     (case find (\<lambda>b. b_userId b = userId) (bookings s) of
        None \<Rightarrow> (Inl NotFoundError, s)
      | Some b \<Rightarrow> (Inr (b, find (\<lambda>r. r_id r = b_roomId b) (rooms s)), s))"
  by (simp add: getBooking_def bookingRepository_getBooking_def action_defs split: option.splits)

lemma postBooking_eq:
  "postBooking now userId roomId s =
     (case fst (verifyRoom roomId s) of
        Inl e \<Rightarrow> (Inl e, s)
      | Inr _ \<Rightarrow>
         (case fst (validTicket userId s) of
            Inl e \<Rightarrow> (Inl e, s)
          | Inr _ \<Rightarrow>
             (case find (\<lambda>b. b_userId b = userId) (bookings s) of
                Some _ \<Rightarrow> (Inl CannotBookingError, s)
              | None \<Rightarrow> bookingRepository_postBooking now userId roomId s)))"
proof -
  obtain r1 where r1: "verifyRoom roomId s = (r1, s)"
    using snd_verifyRoom [of roomId s] by (cases "verifyRoom roomId s") simp
  obtain r2 where r2: "validTicket userId s = (r2, s)"
    using snd_validTicket [of userId s] by (cases "validTicket userId s") simp
  show ?thesis
    by (simp add: postBooking_def await_def throw_def r1 r2 bookingRepository_getBooking_def
          split: sum.splits option.splits)
qed

lemma putBooking_eq:
  "putBooking now userId bookingId roomId s =
     (case find (\<lambda>b. b_id b = bookingId) (bookings s) of
        None \<Rightarrow> (Inl NotFoundError, s)
      | Some bk \<Rightarrow>
          if userId \<noteq> b_userId bk \<or> roomId = b_roomId bk then (Inl CannotBookingError, s)
          else (case fst (verifyRoom roomId s) of
                  Inl e \<Rightarrow> (Inl e, s)
                | Inr _ \<Rightarrow>
                    (Inr (bk\<lparr>b_roomId := roomId, b_updatedAt := now\<rparr>),
                     s\<lparr>bookings := update_row bookingId
                          (\<lambda>b. b\<lparr>b_roomId := roomId, b_updatedAt := now\<rparr>) (bookings s)\<rparr>)))"
proof -
  obtain r1 where r1: "verifyRoom roomId s = (r1, s)"
    using snd_verifyRoom [of roomId s] by (cases "verifyRoom roomId s") simp
  show ?thesis
    by (simp add: putBooking_def await_def throw_def r1 findBooking_def updateBooking_def Let_def
          split: sum.splits option.splits)
qed

section \<open>Creating a booking\<close>

text \<open>
  C1. A user whose enrollment has a PAID ticket of a type that is not remote and includes
  the hotel, and who has no booking, asks for an existing room whose occupancy is below
  its capacity: \<open>postBooking\<close> succeeds, the Booking it returns carries the user's id and
  the room's id, the Booking table grows by exactly that row, and rooms and tickets are
  left as they were.
\<close>

theorem postBooking_creates_booking:
  assumes enr: "fst (findWithAddressByUserId userId s) = Inr (Some en)"
    and tick: "fst (findTicketByEnrollmentId (e_id en) s) = Inr (Some (t, tt))"
    and paid: "t_status t = PAID"
    and pres: "\<not> tt_isRemote tt"
    and hotel: "tt_includesHotel tt"
    and nobk: "\<forall>b \<in> set (bookings s). b_userId b \<noteq> userId"
    and rm: "fst (findRoom roomId s) = Inr (Some rm)"
    and free: "int (occupancy s roomId) < r_capacity rm"
  shows "\<exists>b. postBooking now userId roomId s =
               (Inr b, s\<lparr>bookings := bookings s @ [b], bookingSeq := bookingSeq s + 1\<rparr>)
           \<and> b_userId b = userId \<and> b_roomId b = roomId
           \<and> rooms (snd (postBooking now userId roomId s)) = rooms s
           \<and> tickets (snd (postBooking now userId roomId s)) = tickets s"
proof -
  have vr: "fst (verifyRoom roomId s) = Inr (occupancy s roomId)"
    using free by (simp add: verifyRoom_occupancy [OF rm])
  have "eligible s userId"
    using enr tick paid pres hotel by (simp add: eligible_def)
  then obtain tk where vt: "fst (validTicket userId s) = Inr tk"
    by (auto dest: validTicket_eligible)
  have nb: "find (\<lambda>b. b_userId b = userId) (bookings s) = None"
    using nobk by (simp add: find_None_iff)
  show ?thesis
    by (simp add: postBooking_eq vr vt nb bookingRepository_postBooking_def Let_def)
qed

theorem postBooking_creates_booking_witness:
  "\<exists>b. postBooking 9 8 21 example_store =
        (Inr b, example_store\<lparr>bookings := bookings example_store @ [b],
                              bookingSeq := bookingSeq example_store + 1\<rparr>)
      \<and> b_userId b = 8 \<and> b_roomId b = 21
      \<and> rooms (snd (postBooking 9 8 21 example_store)) = rooms example_store
      \<and> tickets (snd (postBooking 9 8 21 example_store)) = tickets example_store"
  by (rule postBooking_creates_booking
        [where en = enrollment_8 and t = ticket_8 and tt = type_hotel and rm = room_Y])
     (simp_all add: example_defs findWithAddressByUserId_def findTicketByEnrollmentId_def
        findRoom_def occupancy_def)

text \<open>
  C2. \<open>validTicket\<close> resolves exactly when the five conditions of \<open>eligible\<close> hold
  together, and rejects with \<open>CannotBookingError\<close> as soon as one of them fails; so for
  a room that passes the room check, \<open>postBooking\<close> of a user who misses any of the five
  conditions fails with \<open>CannotBookingError\<close>.
\<close>

theorem validTicket_five_conditions:
  "((\<exists>tk. fst (validTicket userId s) = Inr tk) \<longleftrightarrow> eligible s userId)
   \<and> (fst (validTicket userId s) = Inl CannotBookingError \<longleftrightarrow> \<not> eligible s userId)
   \<and> (\<not> eligible s userId \<longrightarrow> fst (verifyRoom roomId s) = Inr n \<longrightarrow>
        postBooking now userId roomId s = (Inl CannotBookingError, s))"
proof (cases "eligible s userId")
  case True
  then show ?thesis by (auto dest: validTicket_eligible)
next
  case False
  then show ?thesis by (simp add: validTicket_ineligible postBooking_eq)
qed

theorem validTicket_five_conditions_witness:
  "postBooking 9 8 21 (example_store\<lparr>enrollments := []\<rparr>) =
     (Inl CannotBookingError, example_store\<lparr>enrollments := []\<rparr>)
   \<and> postBooking 9 8 21 (example_store\<lparr>tickets := []\<rparr>) =
     (Inl CannotBookingError, example_store\<lparr>tickets := []\<rparr>)
   \<and> postBooking 9 8 21 (example_store\<lparr>tickets := [ticket_8\<lparr>t_status := RESERVED\<rparr>]\<rparr>) =
     (Inl CannotBookingError, example_store\<lparr>tickets := [ticket_8\<lparr>t_status := RESERVED\<rparr>]\<rparr>)
   \<and> postBooking 9 8 21 (example_store\<lparr>ticketTypes := [type_hotel\<lparr>tt_isRemote := True\<rparr>]\<rparr>) =
     (Inl CannotBookingError, example_store\<lparr>ticketTypes := [type_hotel\<lparr>tt_isRemote := True\<rparr>]\<rparr>)
   \<and> postBooking 9 8 21 (example_store\<lparr>ticketTypes := [type_hotel\<lparr>tt_includesHotel := False\<rparr>]\<rparr>) =
     (Inl CannotBookingError,
      example_store\<lparr>ticketTypes := [type_hotel\<lparr>tt_includesHotel := False\<rparr>]\<rparr>)"
proof -
  let ?s1 = "example_store\<lparr>enrollments := []\<rparr>"
  let ?s2 = "example_store\<lparr>tickets := []\<rparr>"
  let ?s3 = "example_store\<lparr>tickets := [ticket_8\<lparr>t_status := RESERVED\<rparr>]\<rparr>"
  let ?s4 = "example_store\<lparr>ticketTypes := [type_hotel\<lparr>tt_isRemote := True\<rparr>]\<rparr>"
  let ?s5 = "example_store\<lparr>ticketTypes := [type_hotel\<lparr>tt_includesHotel := False\<rparr>]\<rparr>"
  have inel: "\<not> eligible ?s1 8" "\<not> eligible ?s2 8" "\<not> eligible ?s3 8" "\<not> eligible ?s4 8"
    "\<not> eligible ?s5 8"
    by (simp_all add: eligible_def example_defs findWithAddressByUserId_def
          findTicketByEnrollmentId_def)
  have room: "fst (verifyRoom 21 ?s1) = Inr 0" "fst (verifyRoom 21 ?s2) = Inr 0"
    "fst (verifyRoom 21 ?s3) = Inr 0" "fst (verifyRoom 21 ?s4) = Inr 0"
    "fst (verifyRoom 21 ?s5) = Inr 0"
    by (simp_all add: verifyRoom_eq example_defs occupancy_def)
  note five = validTicket_five_conditions [where userId = 8 and roomId = 21 and n = 0 and now = 9]
  from five [where s = ?s1] five [where s = ?s2] five [where s = ?s3] five [where s = ?s4]
    five [where s = ?s5] inel room
  show ?thesis by simp
qed

section \<open>The room check\<close>

text \<open>
  C3, at the input where it fails: room 20 exists and is full (one booking, capacity 1),
  and \<open>putBooking\<close> for a booking id that no row has rejects with \<open>NotFoundError\<close>, not
  with \<open>CannotBookingError\<close>.
\<close>

theorem putBooking_full_room_counterexample:
  "fst (findRoom 20 example_store) = Inr (Some room_X)
   \<and> fst (countBookingRoom 20 example_store) = Inr 1
   \<and> r_capacity room_X \<le> int (occupancy example_store 20)
   \<and> fst (putBooking 9 7 99 20 example_store) = Inl NotFoundError"
  by (simp add: example_defs findRoom_def countBookingRoom_def occupancy_def putBooking_eq)

text \<open>
  C3, amended. For an existing room, the count the room check uses is the occupancy of
  the room. When the occupancy has reached the capacity, the room check and
  \<open>postBooking\<close> reject with \<open>CannotBookingError\<close>, and \<open>putBooking\<close> rejects too:
  with \<open>CannotBookingError\<close> when the booking exists, with \<open>NotFoundError\<close> when it does
  not. When the occupancy is below the capacity, the room check passes: \<open>postBooking\<close>
  goes on with the ticket check and the rest, and \<open>putBooking\<close>, for the owner of the
  booking asking for another room, goes on with the write and succeeds.
\<close>

theorem room_check_occupancy:
  assumes rm: "fst (findRoom roomId s) = Inr (Some rm)"
  shows "fst (countBookingRoom roomId s) = Inr (occupancy s roomId)
    \<and> (r_capacity rm \<le> int (occupancy s roomId) \<longrightarrow>
          verifyRoom roomId s = (Inl CannotBookingError, s)
        \<and> postBooking now userId roomId s = (Inl CannotBookingError, s)
        \<and> putBooking now userId bookingId roomId s =
            (Inl (if fst (findBooking bookingId s) = Inr None then NotFoundError
                  else CannotBookingError), s))
    \<and> (int (occupancy s roomId) < r_capacity rm \<longrightarrow>
          verifyRoom roomId s = (Inr (occupancy s roomId), s)
        \<and> postBooking now userId roomId s =
            await (validTicket userId) (\<lambda>_.
            await (bookingRepository_getBooking userId) (\<lambda>userBooking.
              case userBooking of
                Some _ \<Rightarrow> throw CannotBookingError
              | None \<Rightarrow> bookingRepository_postBooking now userId roomId)) s
        \<and> (\<forall>bk. fst (findBooking bookingId s) = Inr (Some bk) \<and> userId = b_userId bk
                  \<and> roomId \<noteq> b_roomId bk \<longrightarrow>
              putBooking now userId bookingId roomId s = updateBooking now bookingId roomId s
              \<and> fst (putBooking now userId bookingId roomId s) =
                  Inr (bk\<lparr>b_roomId := roomId, b_updatedAt := now\<rparr>)))"
proof -
  note vr = verifyRoom_occupancy [OF rm]
  have c1: "fst (countBookingRoom roomId s) = Inr (occupancy s roomId)"
    by (simp add: countBookingRoom_occupancy)
  have c2: "postBooking now userId roomId s = (Inl CannotBookingError, s)"
    and c3: "putBooking now userId bookingId roomId s =
            (Inl (if fst (findBooking bookingId s) = Inr None then NotFoundError
                  else CannotBookingError), s)"
    and c6: "verifyRoom roomId s = (Inl CannotBookingError, s)"
    if "r_capacity rm \<le> int (occupancy s roomId)"
    using that
    by (simp_all add: postBooking_eq putBooking_eq vr findBooking_def split: option.splits)
  have c4: "postBooking now userId roomId s =
            await (validTicket userId) (\<lambda>_.
            await (bookingRepository_getBooking userId) (\<lambda>userBooking.
              case userBooking of
                Some _ \<Rightarrow> throw CannotBookingError
              | None \<Rightarrow> bookingRepository_postBooking now userId roomId)) s"
    and c7: "verifyRoom roomId s = (Inr (occupancy s roomId), s)"
    if "int (occupancy s roomId) < r_capacity rm"
    using that by (simp_all add: postBooking_def await_def vr)
  have c5: "putBooking now userId bookingId roomId s = updateBooking now bookingId roomId s
              \<and> fst (putBooking now userId bookingId roomId s) =
                  Inr (bk\<lparr>b_roomId := roomId, b_updatedAt := now\<rparr>)"
    if "int (occupancy s roomId) < r_capacity rm"
      and "fst (findBooking bookingId s) = Inr (Some bk)" "userId = b_userId bk"
      and "roomId \<noteq> b_roomId bk"
    for bk
    using that by (simp add: putBooking_eq vr findBooking_def updateBooking_def Let_def)
  show ?thesis
    using c1 c2 c3 c4 c5 c6 c7 by blast
qed

theorem room_check_occupancy_witness:
  "fst (countBookingRoom 20 example_store) = Inr (occupancy example_store 20)
   \<and> r_capacity room_X \<le> int (occupancy example_store 20)
   \<and> postBooking 9 8 20 example_store = (Inl CannotBookingError, example_store)
   \<and> putBooking 9 7 99 20 example_store = (Inl NotFoundError, example_store)
   \<and> putBooking 9 8 1 20 example_store = (Inl CannotBookingError, example_store)
   \<and> int (occupancy example_store 21) < r_capacity room_Y
   \<and> verifyRoom 21 example_store = (Inr 0, example_store)
   \<and> putBooking 9 7 1 21 example_store = updateBooking 9 1 21 example_store"
proof -
  have rm: "fst (findRoom 20 example_store) = Inr (Some room_X)"
    and rm': "fst (findRoom 21 example_store) = Inr (Some room_Y)"
    by (simp_all add: example_defs findRoom_def)
  have occ: "occupancy example_store 20 = 1" "occupancy example_store 21 = 0"
    by (simp_all add: example_defs occupancy_def)
  have f1: "fst (findBooking 99 example_store) = Inr None"
    and f2: "fst (findBooking 1 example_store) = Inr (Some booking_1)"
    by (simp_all add: example_defs findBooking_def)
  from room_check_occupancy [OF rm, of 9 8 99] room_check_occupancy [OF rm, of 9 7 99]
    room_check_occupancy [OF rm, of 9 8 1] room_check_occupancy [OF rm', of 9 7 1] occ f1 f2
  show ?thesis by (simp add: booking_1_def room_X_def room_Y_def)
qed

section \<open>Changing the room of a booking\<close>

text \<open>
  C4. \<open>putBooking\<close> rejects with \<open>NotFoundError\<close> when no Booking has the given id.
  When one has, it rejects with \<open>CannotBookingError\<close> if the caller is not the
  booking's user or if the room asked for is the booking's room; the two conditions are
  one test, and the test comes before the room is looked at: the outcome is the same
  whatever the Room table holds.
\<close>

theorem putBooking_guards:
  "(fst (findBooking bookingId s) = Inr None \<longrightarrow>
      putBooking now userId bookingId roomId s = (Inl NotFoundError, s))
   \<and> (fst (findBooking bookingId s) = Inr (Some bk)
        \<and> (userId \<noteq> b_userId bk \<or> roomId = b_roomId bk) \<longrightarrow>
      putBooking now userId bookingId roomId s = (Inl CannotBookingError, s)
      \<and> (\<forall>rs. putBooking now userId bookingId roomId (s\<lparr>rooms := rs\<rparr>) =
                 (Inl CannotBookingError, s\<lparr>rooms := rs\<rparr>)))"
  by (auto simp add: putBooking_eq findBooking_def)

theorem putBooking_guards_witness:
  "fst (findBooking 99 example_store) = Inr None
   \<and> putBooking 9 7 99 21 example_store = (Inl NotFoundError, example_store)
   \<and> putBooking 9 8 1 21 example_store = (Inl CannotBookingError, example_store)
   \<and> putBooking 9 7 1 20 example_store = (Inl CannotBookingError, example_store)
   \<and> putBooking 9 7 1 20 (example_store\<lparr>rooms := []\<rparr>) =
        (Inl CannotBookingError, example_store\<lparr>rooms := []\<rparr>)"
proof -
  have f1: "fst (findBooking 99 example_store) = Inr None"
    and f2: "fst (findBooking 1 example_store) = Inr (Some booking_1)"
    by (simp_all add: example_defs findBooking_def)
  note g = putBooking_guards [where s = example_store and now = 9 and bk = booking_1]
  from g [where bookingId = 99 and userId = 7 and roomId = 21]
    g [where bookingId = 1 and userId = 8 and roomId = 21]
    g [where bookingId = 1 and userId = 7 and roomId = 20] f1 f2
  show ?thesis by (simp add: booking_1_def room_X_def room_Y_def)
qed

text \<open>
  C5, at the input where it fails: user 7 has a booking and asks for room 99, which does
  not exist; \<open>postBooking\<close> rejects with \<open>NotFoundError\<close>, not with
  \<open>CannotBookingError\<close>.
\<close>

theorem postBooking_second_call_counterexample:
  "fst (getBooking 7 example_store) =
     Inr (booking_1, Some room_X)
   \<and> fst (postBooking 9 7 99 example_store) = Inl NotFoundError"
  by (simp add: example_defs getBooking_eq postBooking_eq verifyRoom_eq)

text \<open>
  C5, amended. For a user who already has a Booking, \<open>postBooking\<close> always fails and
  writes nothing: with \<open>CannotBookingError\<close> whichever existing room is asked for, and
  with \<open>NotFoundError\<close> when no room has the id asked for.
\<close>

theorem postBooking_second_call:
  assumes "b \<in> set (bookings s)" and "b_userId b = userId"
  shows "postBooking now userId roomId s =
           (Inl (if fst (findRoom roomId s) = Inr None then NotFoundError
                 else CannotBookingError), s)"
proof -
  have "find (\<lambda>b. b_userId b = userId) (bookings s) \<noteq> None"
    using assms by (auto simp add: find_None_iff)
  then show ?thesis
    by (cases "eligible s userId")
       (auto simp add: postBooking_eq verifyRoom_eq findRoom_def validTicket_ineligible
          dest: validTicket_eligible split: option.splits)
qed

theorem postBooking_second_call_witness:
  "postBooking 9 7 21 example_store = (Inl CannotBookingError, example_store)
   \<and> postBooking 9 7 20 example_store = (Inl CannotBookingError, example_store)
   \<and> postBooking 9 7 99 example_store = (Inl NotFoundError, example_store)"
proof -
  have m: "booking_1 \<in> set (bookings example_store)"
    by (simp add: example_defs)
  have r: "fst (findRoom 21 example_store) \<noteq> Inr None"
    "fst (findRoom 20 example_store) \<noteq> Inr None" "fst (findRoom 99 example_store) = Inr None"
    by (simp_all add: example_defs findRoom_def)
  from postBooking_second_call [OF m, of 7 9 21] postBooking_second_call [OF m, of 7 9 20]
    postBooking_second_call [OF m, of 7 9 99] r
  show ?thesis by (simp add: booking_1_def room_X_def room_Y_def)
qed

section \<open>Writes and what they leave alone\<close>

lemma update_row_nth:
  "find (\<lambda>b. b_id b = i) bs = Some bk \<Longrightarrow>
   \<exists>k < length bs. bs ! k = bk \<and> update_row i f bs = bs[k := f bk]"
proof (induction bs)
  case Nil
  then show ?case by simp
next
  case (Cons b bs)
  show ?case
  proof (cases "b_id b = i")
    case True
    with Cons.prems have "b = bk" by simp
    with True have "(b # bs) ! 0 = bk \<and> update_row i f (b # bs) = (b # bs)[0 := f bk]"
      by simp
    then show ?thesis by blast
  next
    case False
    with Cons obtain k where "k < length bs" "bs ! k = bk" "update_row i f bs = bs[k := f bk]"
      by auto
    with False have "Suc k < length (b # bs) \<and> (b # bs) ! Suc k = bk
        \<and> update_row i f (b # bs) = (b # bs)[Suc k := f bk]"
      by simp
    then show ?thesis by blast
  qed
qed

lemma update_row_userId:
  "map b_userId (update_row i (\<lambda>b. b\<lparr>b_roomId := r, b_updatedAt := n\<rparr>) bs) = map b_userId bs"
  by (induction bs) auto

lemma find_list_update:
  "distinct (map g bs) \<Longrightarrow> k < length bs \<Longrightarrow> g (bs ! k) = u \<Longrightarrow> g c = u \<Longrightarrow>
   find (\<lambda>b. g b = u) (bs[k := c]) = Some c"
proof (induction bs arbitrary: k)
  case Nil
  then show ?case by simp
next
  case (Cons b bs)
  show ?case
  proof (cases k)
    case 0
    with Cons.prems show ?thesis by simp
  next
    case (Suc j)
    with Cons.prems have "g b \<noteq> u"
      by (metis distinct.simps(2) length_Cons list.simps(9) not_less_eq nth_Cons_Suc nth_map nth_mem length_map)
    with Suc Cons show ?thesis by simp
  qed
qed

lemma count_list_update:
  "k < length bs \<Longrightarrow> g (bs ! k) = x \<Longrightarrow> g c \<noteq> x \<Longrightarrow>
   Suc (count_list (map g (bs[k := c])) x) = count_list (map g bs) x"
proof (induction bs arbitrary: k)
  case Nil
  then show ?case by simp
next
  case (Cons b bs)
  then show ?case by (cases k) auto
qed

lemma postBooking_result:
  "(\<exists>e. postBooking now userId roomId s = (Inl e, s) \<and> (e = NotFoundError \<or> e = CannotBookingError))
   \<or> (find (\<lambda>b. b_userId b = userId) (bookings s) = None
       \<and> postBooking now userId roomId s = bookingRepository_postBooking now userId roomId s)"
  by (cases "eligible s userId")
     (auto simp add: postBooking_eq verifyRoom_eq validTicket_ineligible
        dest: validTicket_eligible split: option.splits)

lemma putBooking_result:
  "(\<exists>e. putBooking now userId bookingId roomId s = (Inl e, s)
        \<and> (e = NotFoundError \<or> e = CannotBookingError))
   \<or> (\<exists>bk rm. find (\<lambda>b. b_id b = bookingId) (bookings s) = Some bk
        \<and> userId = b_userId bk \<and> roomId \<noteq> b_roomId bk
        \<and> find (\<lambda>r. r_id r = roomId) (rooms s) = Some rm
        \<and> int (occupancy s roomId) < r_capacity rm
        \<and> putBooking now userId bookingId roomId s =
            (Inr (bk\<lparr>b_roomId := roomId, b_updatedAt := now\<rparr>),
             s\<lparr>bookings := update_row bookingId
                  (\<lambda>b. b\<lparr>b_roomId := roomId, b_updatedAt := now\<rparr>) (bookings s)\<rparr>))"
  by (auto simp add: putBooking_eq verifyRoom_eq split: option.splits)

text \<open>
  C6. A failing \<open>postBooking\<close> or \<open>putBooking\<close> fails with \<open>NotFoundError\<close> or
  \<open>CannotBookingError\<close> and leaves the whole store (bookings, rooms, enrollments,
  tickets, ticket types) as it found it; a successful one has made its single write:
  \<open>postBooking\<close> has appended the returned row, \<open>putBooking\<close> has replaced one row by
  the returned one.
\<close>

theorem failure_writes_nothing:
  "(\<forall>e. fst (postBooking now userId roomId s) = Inl e \<longrightarrow>
        snd (postBooking now userId roomId s) = s \<and> (e = NotFoundError \<or> e = CannotBookingError))
   \<and> (\<forall>e. fst (putBooking now userId bookingId roomId s) = Inl e \<longrightarrow>
        snd (putBooking now userId bookingId roomId s) = s
        \<and> (e = NotFoundError \<or> e = CannotBookingError))
   \<and> (\<forall>b. fst (postBooking now userId roomId s) = Inr b \<longrightarrow>
        snd (postBooking now userId roomId s) =
          s\<lparr>bookings := bookings s @ [b], bookingSeq := bookingSeq s + 1\<rparr>)
   \<and> (\<forall>b. fst (putBooking now userId bookingId roomId s) = Inr b \<longrightarrow>
        (\<exists>k < length (bookings s).
           snd (putBooking now userId bookingId roomId s) =
             s\<lparr>bookings := (bookings s)[k := b]\<rparr>))"
proof -
  have post: "snd (postBooking now userId roomId s) = s \<and> (e = NotFoundError \<or> e = CannotBookingError)"
    if "fst (postBooking now userId roomId s) = Inl e" for e
    using that postBooking_result [of now userId roomId s]
    by (auto simp add: bookingRepository_postBooking_def Let_def)
  have put: "snd (putBooking now userId bookingId roomId s) = s
        \<and> (e = NotFoundError \<or> e = CannotBookingError)"
    if "fst (putBooking now userId bookingId roomId s) = Inl e" for e
    using that putBooking_result [of now userId bookingId roomId s] by auto
  have post': "snd (postBooking now userId roomId s) =
          s\<lparr>bookings := bookings s @ [b], bookingSeq := bookingSeq s + 1\<rparr>"
    if "fst (postBooking now userId roomId s) = Inr b" for b
    using that postBooking_result [of now userId roomId s]
    by (auto simp add: bookingRepository_postBooking_def Let_def)
  have put': "\<exists>k < length (bookings s).
           snd (putBooking now userId bookingId roomId s) = s\<lparr>bookings := (bookings s)[k := b]\<rparr>"
    if "fst (putBooking now userId bookingId roomId s) = Inr b" for b
    using that putBooking_result [of now userId bookingId roomId s]
    by (auto dest!: update_row_nth [where f = "\<lambda>b. b\<lparr>b_roomId := roomId, b_updatedAt := now\<rparr>"])
  show ?thesis
    using post put post' put' by blast
qed

theorem failure_writes_nothing_witness:
  "fst (postBooking 9 7 21 example_store) = Inl CannotBookingError
   \<and> snd (postBooking 9 7 21 example_store) = example_store
   \<and> fst (putBooking 9 7 99 21 example_store) = Inl NotFoundError
   \<and> snd (putBooking 9 7 99 21 example_store) = example_store
   \<and> fst (postBooking 9 8 21 example_store) =
       Inr \<lparr>b_id = 2, b_userId = 8, b_roomId = 21, b_createdAt = 9, b_updatedAt = 9\<rparr>
   \<and> snd (postBooking 9 8 21 example_store) =
       example_store\<lparr>bookings := [booking_1,
           \<lparr>b_id = 2, b_userId = 8, b_roomId = 21, b_createdAt = 9, b_updatedAt = 9\<rparr>],
         bookingSeq := 3\<rparr>
   \<and> fst (putBooking 9 7 1 21 example_store) = Inr (booking_1\<lparr>b_roomId := 21, b_updatedAt := 9\<rparr>)
   \<and> (\<exists>k < length (bookings example_store).
         snd (putBooking 9 7 1 21 example_store) =
           example_store\<lparr>bookings := (bookings example_store)
             [k := booking_1\<lparr>b_roomId := 21, b_updatedAt := 9\<rparr>]\<rparr>)"
proof -
  have a: "fst (postBooking 9 7 21 example_store) = Inl CannotBookingError"
    by (simp add: postBooking_eq verifyRoom_eq validTicket_eq occupancy_def example_defs)
  have b: "fst (putBooking 9 7 99 21 example_store) = Inl NotFoundError"
    by (simp add: putBooking_eq example_defs)
  have c: "fst (postBooking 9 8 21 example_store) =
       Inr \<lparr>b_id = 2, b_userId = 8, b_roomId = 21, b_createdAt = 9, b_updatedAt = 9\<rparr>"
    by (simp add: postBooking_eq verifyRoom_eq validTicket_eq occupancy_def example_defs
          findTicketByEnrollmentId_def bookingRepository_postBooking_def Let_def)
  have d: "fst (putBooking 9 7 1 21 example_store) =
       Inr (booking_1\<lparr>b_roomId := 21, b_updatedAt := 9\<rparr>)"
    by (simp add: putBooking_eq verifyRoom_eq occupancy_def example_defs)
  have e: "bookings example_store = [booking_1]" "bookingSeq example_store = 2"
    by (simp_all add: example_store_def)
  from failure_writes_nothing [where now = 9 and userId = 7 and roomId = 21
      and s = example_store and bookingId = 99]
    failure_writes_nothing [where now = 9 and userId = 8 and roomId = 21
      and s = example_store and bookingId = 99]
    failure_writes_nothing [where now = 9 and userId = 7 and roomId = 21
      and s = example_store and bookingId = 1] a b c d e
  show ?thesis by simp
qed

section \<open>At most one booking per user\<close>

lemma run_call_invariant:
  assumes "oneBookingPerUser s"
  shows "oneBookingPerUser (run_call c s)"
proof (cases c)
  case (GetBooking userId)
  then show ?thesis
    using assms by (simp add: getBooking_eq split: option.splits)
next
  case (PostBooking now userId roomId)
  from postBooking_result [of now userId roomId s] show ?thesis
  proof
    assume "\<exists>e. postBooking now userId roomId s = (Inl e, s)
                \<and> (e = NotFoundError \<or> e = CannotBookingError)"
    then show ?thesis using assms PostBooking by auto
  next
    assume a: "find (\<lambda>b. b_userId b = userId) (bookings s) = None
       \<and> postBooking now userId roomId s = bookingRepository_postBooking now userId roomId s"
    then have "userId \<notin> b_userId ` set (bookings s)"
      by (auto simp add: find_None_iff)
    with a assms PostBooking show ?thesis
      by (simp add: oneBookingPerUser_def bookingRepository_postBooking_def Let_def)
  qed
next
  case (PutBooking now userId bookingId roomId)
  from putBooking_result [of now userId bookingId roomId s] assms PutBooking show ?thesis
    by (auto simp add: oneBookingPerUser_def update_row_userId)
qed

lemma run_calls_invariant:
  "oneBookingPerUser s \<Longrightarrow> oneBookingPerUser (run_calls cs s)"
  by (induction cs arbitrary: s) (simp_all add: run_call_invariant)

text \<open>
  C7. From a store where no user has two bookings, every sequence of calls ends in such
  a store, and so does each single call: \<open>getBooking\<close> leaves the store alone,
  \<open>postBooking\<close> adds a row only for a user who had none, and \<open>putBooking\<close> leaves
  the userId of every row as it was.
\<close>

theorem oneBookingPerUser_preserved:
  assumes inv: "oneBookingPerUser s"
  shows "oneBookingPerUser (run_calls cs s)
    \<and> snd (getBooking userId s) = s
    \<and> oneBookingPerUser (snd (postBooking now userId roomId s))
    \<and> (\<forall>b. fst (postBooking now userId roomId s) = Inr b \<longrightarrow>
          userId \<notin> b_userId ` set (bookings s)
          \<and> bookings (snd (postBooking now userId roomId s)) = bookings s @ [b]
          \<and> b_userId b = userId)
    \<and> oneBookingPerUser (snd (putBooking now userId bookingId roomId s))
    \<and> map b_userId (bookings (snd (putBooking now userId bookingId roomId s))) =
        map b_userId (bookings s)"
proof -
  have g: "snd (getBooking userId s) = s"
    by (simp add: getBooking_eq split: option.splits)
  have p1: "oneBookingPerUser (snd (postBooking now userId roomId s))"
    using run_call_invariant [OF inv, of "PostBooking now userId roomId"] by simp
  have p2: "oneBookingPerUser (snd (putBooking now userId bookingId roomId s))"
    using run_call_invariant [OF inv, of "PutBooking now userId bookingId roomId"] by simp
  have p3: "userId \<notin> b_userId ` set (bookings s)
          \<and> bookings (snd (postBooking now userId roomId s)) = bookings s @ [b]
          \<and> b_userId b = userId"
    if "fst (postBooking now userId roomId s) = Inr b" for b
    using that postBooking_result [of now userId roomId s]
    by (auto simp add: bookingRepository_postBooking_def Let_def find_None_iff)
  have p4: "map b_userId (bookings (snd (putBooking now userId bookingId roomId s))) =
        map b_userId (bookings s)"
    using putBooking_result [of now userId bookingId roomId s]
    by (auto simp add: update_row_userId)
  show ?thesis
    using run_calls_invariant [OF inv, of cs] g p1 p2 p3 p4 by blast
qed

theorem oneBookingPerUser_preserved_witness:
  "oneBookingPerUser example_store
   \<and> oneBookingPerUser (run_calls [PostBooking 9 8 21, PostBooking 10 8 21, PutBooking 11 7 1 21,
         GetBooking 8] example_store)
   \<and> oneBookingPerUser (snd (postBooking 9 8 21 example_store))
   \<and> 8 \<notin> b_userId ` set (bookings example_store)
   \<and> oneBookingPerUser (snd (putBooking 9 7 1 21 example_store))"
proof -
  have inv: "oneBookingPerUser example_store"
    by (simp add: oneBookingPerUser_def example_defs)
  have ok: "fst (postBooking 9 8 21 example_store) =
       Inr \<lparr>b_id = 2, b_userId = 8, b_roomId = 21, b_createdAt = 9, b_updatedAt = 9\<rparr>"
    by (simp add: postBooking_eq verifyRoom_eq validTicket_eq occupancy_def example_defs
          findTicketByEnrollmentId_def bookingRepository_postBooking_def Let_def)
  from oneBookingPerUser_preserved [OF inv, where userId = 8 and now = 9 and roomId = 21
      and cs = "[PostBooking 9 8 21, PostBooking 10 8 21, PutBooking 11 7 1 21, GetBooking 8]"]
    oneBookingPerUser_preserved [OF inv, where userId = 7 and now = 9 and roomId = 21
      and bookingId = 1] inv ok
  show ?thesis by blast
qed

section \<open>What a successful change of room touches\<close>

text \<open>
  C8. A successful \<open>putBooking\<close> returns the booking with its roomId set to the new room
  and its updatedAt refreshed; id, userId and createdAt are kept, the row is replaced in
  place and every other row and table is untouched. Hence, when each user has at most
  one booking, \<open>getBooking\<close> for the user then returns the booking with the new room,
  and if the user was the only occupant of the old room, that room's occupancy is 0.
\<close>

theorem putBooking_frame:
  assumes ok: "putBooking now userId bookingId roomId s = (Inr b', s')"
    and old: "fst (findBooking bookingId s) = Inr (Some bk)"
  shows "b' = bk\<lparr>b_roomId := roomId, b_updatedAt := now\<rparr>
    \<and> b_id b' = b_id bk \<and> b_userId b' = b_userId bk \<and> b_createdAt b' = b_createdAt bk
    \<and> (\<exists>k < length (bookings s). bookings s ! k = bk \<and> s' = s\<lparr>bookings := (bookings s)[k := b']\<rparr>)
    \<and> rooms s' = rooms s \<and> enrollments s' = enrollments s \<and> tickets s' = tickets s
    \<and> ticketTypes s' = ticketTypes s
    \<and> (oneBookingPerUser s \<longrightarrow>
          (\<exists>rm. fst (getBooking userId s') = Inr (b', Some rm) \<and> r_id rm = roomId))
    \<and> (occupancy s (b_roomId bk) = 1 \<longrightarrow> occupancy s' (b_roomId bk) = 0)"
proof -
  let ?f = "\<lambda>b. b\<lparr>b_roomId := roomId, b_updatedAt := now\<rparr>"
  from old have fb: "find (\<lambda>b. b_id b = bookingId) (bookings s) = Some bk"
    by (simp add: findBooking_def)
  from putBooking_result [of now userId bookingId roomId s] ok fb
  obtain rm where own: "userId = b_userId bk" and diff: "roomId \<noteq> b_roomId bk"
    and rm: "find (\<lambda>r. r_id r = roomId) (rooms s) = Some rm"
    and b': "b' = ?f bk"
    and s': "s' = s\<lparr>bookings := update_row bookingId ?f (bookings s)\<rparr>"
    by auto
  from update_row_nth [OF fb, of ?f]
  obtain k where k: "k < length (bookings s)" "bookings s ! k = bk"
    and upd: "update_row bookingId ?f (bookings s) = (bookings s)[k := ?f bk]"
    by blast
  have bs': "bookings s' = (bookings s)[k := b']"
    by (simp add: s' upd b')
  have rid: "r_id rm = roomId"
    using rm by (auto dest: find_Some_iff [THEN iffD1])
  have get: "fst (getBooking userId s') = Inr (b', Some rm)" if "oneBookingPerUser s"
  proof -
    have "find (\<lambda>b. b_userId b = userId) ((bookings s)[k := b']) = Some b'"
      using that k own b'
      by (intro find_list_update) (simp_all add: oneBookingPerUser_def)
    moreover have "rooms s' = rooms s" "b_roomId b' = roomId"
      by (simp_all add: s' b')
    ultimately show ?thesis
      by (simp add: getBooking_eq bs' rm)
  qed
  have occ: "occupancy s' (b_roomId bk) = 0" if "occupancy s (b_roomId bk) = 1"
  proof -
    have "Suc (count_list (map b_roomId ((bookings s)[k := b'])) (b_roomId bk))
            = count_list (map b_roomId (bookings s)) (b_roomId bk)"
      using k diff b' by (intro count_list_update) simp_all
    with that show ?thesis
      by (simp add: occupancy_def bs')
  qed
  have frame: "\<exists>k < length (bookings s). bookings s ! k = bk \<and> s' = s\<lparr>bookings := (bookings s)[k := b']\<rparr>"
    using k upd s' b' by auto
  show ?thesis
    using b' frame get occ rid by (auto simp add: s')
qed

theorem putBooking_frame_witness:
  "putBooking 9 7 1 21 example_store =
     (Inr (booking_1\<lparr>b_roomId := 21, b_updatedAt := 9\<rparr>),
      example_store\<lparr>bookings :=
        [(booking_1\<lparr>b_roomId := 21, b_updatedAt := 9\<rparr>)]\<rparr>)
   \<and> oneBookingPerUser example_store \<and> occupancy example_store 20 = 1
   \<and> occupancy (example_store\<lparr>bookings :=
        [(booking_1\<lparr>b_roomId := 21, b_updatedAt := 9\<rparr>)]\<rparr>) 20 = 0
   \<and> (\<exists>rm. fst (getBooking 7 (example_store\<lparr>bookings :=
        [(booking_1\<lparr>b_roomId := 21, b_updatedAt := 9\<rparr>)]\<rparr>)) =
          Inr ((booking_1\<lparr>b_roomId := 21, b_updatedAt := 9\<rparr>), Some rm)
        \<and> r_id rm = 21)"
proof -
  have ok: "putBooking 9 7 1 21 example_store =
     (Inr (booking_1\<lparr>b_roomId := 21, b_updatedAt := 9\<rparr>),
      example_store\<lparr>bookings :=
        [(booking_1\<lparr>b_roomId := 21, b_updatedAt := 9\<rparr>)]\<rparr>)"
    by (simp add: putBooking_eq verifyRoom_eq occupancy_def example_defs)
  have old: "fst (findBooking 1 example_store) = Inr (Some booking_1)"
    by (simp add: findBooking_def example_defs)
  have inv: "oneBookingPerUser example_store"
    by (simp add: oneBookingPerUser_def example_defs)
  have occ: "occupancy example_store 20 = 1"
    by (simp add: occupancy_def example_defs)
  from putBooking_frame [OF ok old] ok inv occ show ?thesis
    by (simp add: booking_1_def room_X_def room_Y_def)
qed

section \<open>What changing the room does not depend on\<close>

text \<open>
  C9. \<open>putBooking\<close> never reads enrollments, tickets or ticket types: run with the same
  arguments on two stores that have the same bookings and rooms, whatever their
  enrollments, tickets and ticket types, it returns the same outcome (the same error, or
  the same updated Booking) and leaves the same bookings and rooms; each store keeps
  its own enrollments, tickets and ticket types.
\<close>

theorem putBooking_ignores_tickets:
  assumes bs: "bookings s1 = bookings s2" and rs: "rooms s1 = rooms s2"
  shows "fst (putBooking now userId bookingId roomId s1) =
           fst (putBooking now userId bookingId roomId s2)
    \<and> bookings (snd (putBooking now userId bookingId roomId s1)) =
        bookings (snd (putBooking now userId bookingId roomId s2))
    \<and> rooms (snd (putBooking now userId bookingId roomId s1)) =
        rooms (snd (putBooking now userId bookingId roomId s2))
    \<and> enrollments (snd (putBooking now userId bookingId roomId s1)) = enrollments s1
    \<and> tickets (snd (putBooking now userId bookingId roomId s1)) = tickets s1
    \<and> ticketTypes (snd (putBooking now userId bookingId roomId s1)) = ticketTypes s1"
proof -
  have occ: "occupancy s1 roomId = occupancy s2 roomId"
    by (simp add: occupancy_def bs)
  have vr: "fst (verifyRoom roomId s1) = fst (verifyRoom roomId s2)"
    by (simp add: verifyRoom_eq occ rs split: option.splits)
  show ?thesis
    by (simp add: putBooking_eq vr bs rs split: option.splits sum.splits)
qed

theorem putBooking_ignores_tickets_witness:
  "fst (putBooking 9 7 1 21 example_store) =
     fst (putBooking 9 7 1 21 (example_store\<lparr>enrollments := [], tickets := [], ticketTypes := []\<rparr>))
   \<and> fst (putBooking 9 7 1 21 example_store) = Inr (booking_1\<lparr>b_roomId := 21, b_updatedAt := 9\<rparr>)
   \<and> fst (putBooking 9 8 1 21 example_store) =
     fst (putBooking 9 8 1 21 (example_store\<lparr>enrollments := [], tickets := [], ticketTypes := []\<rparr>))
   \<and> fst (putBooking 9 8 1 21 example_store) = Inl CannotBookingError"
proof -
  let ?s2 = "example_store\<lparr>enrollments := [], tickets := [], ticketTypes := []\<rparr>"
  have bs: "bookings example_store = bookings ?s2" and rs: "rooms example_store = rooms ?s2"
    by simp_all
  have a: "fst (putBooking 9 7 1 21 example_store) =
      Inr (booking_1\<lparr>b_roomId := 21, b_updatedAt := 9\<rparr>)"
    and b: "fst (putBooking 9 8 1 21 example_store) = Inl CannotBookingError"
    by (simp_all add: putBooking_eq verifyRoom_eq occupancy_def example_defs)
  from putBooking_ignores_tickets [OF bs rs, where now = 9 and userId = 7 and bookingId = 1
      and roomId = 21]
    putBooking_ignores_tickets [OF bs rs, where now = 9 and userId = 8 and bookingId = 1
      and roomId = 21] a b
  show ?thesis by simp
qed

lemma update_row_find:
  "find (\<lambda>b. b_id b = i) bs = Some bk \<Longrightarrow> b_id (f bk) = i \<Longrightarrow>
   find (\<lambda>b. b_id b = i) (update_row i f bs) = Some (f bk)"
  by (induction bs) (auto split: if_splits)

lemma find_room_any_hotel:
  "find (\<lambda>r. r_id r = roomId) (map (\<lambda>r. r\<lparr>r_hotelId := h r\<rparr>) rs) =
     map_option (\<lambda>r. r\<lparr>r_hotelId := h r\<rparr>) (find (\<lambda>r. r_id r = roomId) rs)"
  for h and rs :: "room list"
  by (induction rs) auto

text \<open>
  C10. For every existing booking, a request of the booking's user for any existing room
  other than the current one, with occupancy below capacity, is accepted: \<open>putBooking\<close>
  resolves with the booking moved to that room, the row is written to the store (one row
  replaced in place, nothing else changed), and looking the booking up afterwards gives
  the new room. The hotel of the room plays no part: all of this holds the same however
  the rooms are assigned to hotels.
\<close>

theorem putBooking_any_hotel:
  assumes bk: "fst (findBooking bookingId s) = Inr (Some bk)"
    and rm: "fst (findRoom roomId s) = Inr (Some rm)"
    and free: "int (occupancy s roomId) < r_capacity rm"
    and diff: "roomId \<noteq> b_roomId bk"
  shows "putBooking now (b_userId bk) bookingId roomId s =
           (Inr (bk\<lparr>b_roomId := roomId, b_updatedAt := now\<rparr>),
            s\<lparr>bookings := update_row bookingId
                  (\<lambda>b. b\<lparr>b_roomId := roomId, b_updatedAt := now\<rparr>) (bookings s)\<rparr>)
    \<and> (\<exists>k < length (bookings s). bookings s ! k = bk
          \<and> snd (putBooking now (b_userId bk) bookingId roomId s) =
              s\<lparr>bookings := (bookings s)[k := bk\<lparr>b_roomId := roomId, b_updatedAt := now\<rparr>]\<rparr>)
    \<and> fst (findBooking bookingId (snd (putBooking now (b_userId bk) bookingId roomId s))) =
          Inr (Some (bk\<lparr>b_roomId := roomId, b_updatedAt := now\<rparr>))
    \<and> (\<forall>h. putBooking now (b_userId bk) bookingId roomId
                (s\<lparr>rooms := map (\<lambda>r. r\<lparr>r_hotelId := h r\<rparr>) (rooms s)\<rparr>) =
           (Inr (bk\<lparr>b_roomId := roomId, b_updatedAt := now\<rparr>),
            s\<lparr>rooms := map (\<lambda>r. r\<lparr>r_hotelId := h r\<rparr>) (rooms s),
              bookings := update_row bookingId
                  (\<lambda>b. b\<lparr>b_roomId := roomId, b_updatedAt := now\<rparr>) (bookings s)\<rparr>))"
proof -
  let ?f = "\<lambda>b. b\<lparr>b_roomId := roomId, b_updatedAt := now\<rparr>"
  from bk have fb: "find (\<lambda>b. b_id b = bookingId) (bookings s) = Some bk"
    by (simp add: findBooking_def)
  then have idk: "b_id bk = bookingId"
    by (auto dest: find_Some_iff [THEN iffD1])
  from rm have fr: "find (\<lambda>r. r_id r = roomId) (rooms s) = Some rm"
    by (simp add: findRoom_def)
  have run: "putBooking now (b_userId bk) bookingId roomId s =
      (Inr (?f bk), s\<lparr>bookings := update_row bookingId ?f (bookings s)\<rparr>)"
    using fb fr free diff by (simp add: putBooking_eq verifyRoom_eq)
  from update_row_nth [OF fb, of ?f]
  obtain k where k: "k < length (bookings s)" "bookings s ! k = bk"
    and upd: "update_row bookingId ?f (bookings s) = (bookings s)[k := ?f bk]"
    by blast
  have place: "\<exists>k < length (bookings s). bookings s ! k = bk
      \<and> snd (putBooking now (b_userId bk) bookingId roomId s) =
          s\<lparr>bookings := (bookings s)[k := ?f bk]\<rparr>"
    using k upd by (auto simp add: run)
  have stored: "fst (findBooking bookingId (snd (putBooking now (b_userId bk) bookingId roomId s)))
      = Inr (Some (?f bk))"
    using update_row_find [OF fb, of ?f] idk by (simp add: run findBooking_def)
  have hotel: "putBooking now (b_userId bk) bookingId roomId
                (s\<lparr>rooms := map (\<lambda>r. r\<lparr>r_hotelId := h r\<rparr>) (rooms s)\<rparr>) =
           (Inr (?f bk),
            s\<lparr>rooms := map (\<lambda>r. r\<lparr>r_hotelId := h r\<rparr>) (rooms s),
              bookings := update_row bookingId ?f (bookings s)\<rparr>)" for h
    using fb fr free diff
    by (simp add: putBooking_eq verifyRoom_eq occupancy_def find_room_any_hotel)
  show ?thesis
    using run place stored hotel by blast
qed

theorem putBooking_any_hotel_witness:
  "r_hotelId room_X \<noteq> r_hotelId room_Y
   \<and> fst (findRoom 20 example_store) = Inr (Some room_X)
   \<and> putBooking 9 7 1 21 example_store =
       (Inr (booking_1\<lparr>b_roomId := 21, b_updatedAt := 9\<rparr>),
        example_store\<lparr>bookings := [booking_1\<lparr>b_roomId := 21, b_updatedAt := 9\<rparr>]\<rparr>)
   \<and> fst (findBooking 1 (snd (putBooking 9 7 1 21 example_store))) =
       Inr (Some (booking_1\<lparr>b_roomId := 21, b_updatedAt := 9\<rparr>))
   \<and> putBooking 9 7 1 21
         (example_store\<lparr>rooms := [room_X\<lparr>r_hotelId := 5\<rparr>, room_Y\<lparr>r_hotelId := 5\<rparr>]\<rparr>) =
       (Inr (booking_1\<lparr>b_roomId := 21, b_updatedAt := 9\<rparr>),
        example_store\<lparr>rooms := [room_X\<lparr>r_hotelId := 5\<rparr>, room_Y\<lparr>r_hotelId := 5\<rparr>],
          bookings := [booking_1\<lparr>b_roomId := 21, b_updatedAt := 9\<rparr>]\<rparr>)"
proof -
  have bk: "fst (findBooking 1 example_store) = Inr (Some booking_1)"
    by (simp add: findBooking_def example_defs)
  have rm: "fst (findRoom 21 example_store) = Inr (Some room_Y)"
    and rm0: "fst (findRoom 20 example_store) = Inr (Some room_X)"
    by (simp_all add: findRoom_def example_defs)
  have free: "int (occupancy example_store 21) < r_capacity room_Y"
    by (simp add: occupancy_def example_defs)
  have diff: "21 \<noteq> b_roomId booking_1" and hot: "r_hotelId room_X \<noteq> r_hotelId room_Y"
    by (simp_all add: example_defs)
  have bs: "bookings example_store = [booking_1]" "rooms example_store = [room_X, room_Y]"
    "b_id booking_1 = 1" "b_userId booking_1 = 7"
    by (simp_all add: example_defs)
  note any = putBooking_any_hotel [OF bk rm free diff, of 9]
  from any have run: "putBooking 9 7 1 21 example_store =
       (Inr (booking_1\<lparr>b_roomId := 21, b_updatedAt := 9\<rparr>),
        example_store\<lparr>bookings := [booking_1\<lparr>b_roomId := 21, b_updatedAt := 9\<rparr>]\<rparr>)"
    by (simp add: bs)
  from any [unfolded bs(4)]
  have stored: "fst (findBooking 1 (snd (putBooking 9 7 1 21 example_store))) =
       Inr (Some (booking_1\<lparr>b_roomId := 21, b_updatedAt := 9\<rparr>))"
    by blast
  from any [unfolded bs(4), THEN conjunct2, THEN conjunct2, THEN conjunct2, THEN spec,
      of "\<lambda>_. 5"]
  have hotel: "putBooking 9 7 1 21
         (example_store\<lparr>rooms := [room_X\<lparr>r_hotelId := 5\<rparr>, room_Y\<lparr>r_hotelId := 5\<rparr>]\<rparr>) =
       (Inr (booking_1\<lparr>b_roomId := 21, b_updatedAt := 9\<rparr>),
        example_store\<lparr>rooms := [room_X\<lparr>r_hotelId := 5\<rparr>, room_Y\<lparr>r_hotelId := 5\<rparr>],
          bookings := [booking_1\<lparr>b_roomId := 21, b_updatedAt := 9\<rparr>]\<rparr>)"
    by (simp add: bs)
  from hot rm0 run stored hotel show ?thesis
    by blast
qed

end
